theory Spec2Isabelle
  imports Main "HOL-Library.Sublist"
begin

section \<open>The JSON-LD document loader of \<^verbatim>\<open>aries_cloudagent/vc/ld_proofs/document_loader.py\<close>\<close>

subsection \<open>Python values, exceptions and calls to collaborators\<close>

text \<open>
  Documents, options and cached values are Python objects. The loader never looks inside
  them; the only operation it applies to one is the truth test of \<^verbatim>\<open>if document:\<close>.
  A dict is an association list in insertion order.
\<close>

datatype pyval =
    PyNone
  | PyBool bool
  | PyInt int
  | PyStr string
  | PyList "pyval list"
  | PyDict "(string \<times> pyval) list"

text \<open>Python's truth value testing: \<^verbatim>\<open>None\<close>, \<^verbatim>\<open>False\<close>, zero and empty containers are false.\<close>

fun truthy :: "pyval \<Rightarrow> bool" where
  "truthy PyNone = False"
| "truthy (PyBool b) = b"
| "truthy (PyInt i) = (i \<noteq> 0)"
| "truthy (PyStr s) = (s \<noteq> [])"
| "truthy (PyList xs) = (xs \<noteq> [])"
| "truthy (PyDict kvs) = (kvs \<noteq> [])"

text \<open>
  An exception is a value. \<^verbatim>\<open>LinkedDataProofException\<close> is the one class the loader raises
  itself, with its message; \<open>Raised cls msg\<close> is any other exception, raised by a collaborator.
\<close>

datatype exn =
    LinkedDataProofException string
  | Raised string string

text \<open>Every call the loader makes to a collaborator is recorded, with its arguments.\<close>

datatype event =
    ResolverResolve string
  | RequestsLoader string pyval
  | CacheGet string
  | CacheSet string pyval int

text \<open>
  What running a piece of the loader gives: the value returned or the exception raised, the
  collaborator calls made, in order, and the state of the outside world afterwards.
\<close>

record ('a, 'w) outcome =
  result :: "exn + 'a"
  calls :: "event list"
  world :: 'w

subsection \<open>The collaborators\<close>

text \<open>
  A collaborator is a function of its arguments and of the state of the outside world
  (network, ledger, cache contents, clock) of type \<open>'w\<close>; it returns or raises, and leaves
  a new state. \<^verbatim>\<open>await\<close> runs the awaited call to completion before the next line.
\<close>

type_synonym ('a, 'w) call = "'w \<Rightarrow> (exn + 'a) \<times> 'w"

text \<open>\<^verbatim>\<open>BaseCache\<close>: \<^verbatim>\<open>get(key)\<close> returns the value or \<^verbatim>\<open>None\<close>, \<^verbatim>\<open>set(key, value, ttl)\<close>.\<close>

record 'w BaseCache =
  cache_get :: "string \<Rightarrow> (pyval, 'w) call"
  cache_set :: "string \<Rightarrow> pyval \<Rightarrow> int \<Rightarrow> (unit, 'w) call"

text \<open>
  \<^verbatim>\<open>pydid.did_url.DIDUrl\<close>, as far as the loader uses it: the class method \<^verbatim>\<open>is_valid\<close>, the
  class method \<^verbatim>\<open>parse\<close>, and the attribute \<^verbatim>\<open>did\<close> of a parsed URL. The library is not part
  of the repository, so both methods are parameters of the model.
\<close>

datatype DIDUrl =
  DIDUrl (did: string) (path: "string option") (query: "string option") (fragment: "string option")

record pydid =
  DIDUrl_is_valid :: "string \<Rightarrow> bool"
  DIDUrl_parse :: "string \<Rightarrow> exn + DIDUrl"

text \<open>
  The fields \<^verbatim>\<open>__init__\<close> sets: the profile, the injected \<^verbatim>\<open>DIDResolver\<close> (its method
  \<^verbatim>\<open>resolve(profile, did)\<close>), the injected cache (\<^verbatim>\<open>None\<close> when the profile has none:
  \<^verbatim>\<open>required=False\<close>), PyLD's requests document loader, and the TTL. The executor is
  left out: see \<open>load_document\<close>.
\<close>

record ('p, 'w) DocumentLoader =
  profile :: 'p
  resolver :: "'p \<Rightarrow> string \<Rightarrow> (pyval, 'w) call"
  cache :: "'w BaseCache option"
  requests_loader :: "string \<Rightarrow> pyval \<Rightarrow> (pyval, 'w) call"
  cache_ttl :: int

subsection \<open>The loader\<close>

text \<open>\<^verbatim>\<open>str.startswith\<close>.\<close>

definition startswith :: "string \<Rightarrow> string \<Rightarrow> bool" where
  "startswith s p = prefix p s"

text \<open>
  \<^verbatim>\<open>_load_did_document\<close>, lines 36 to 51. The first line replaces \<^verbatim>\<open>did\<close> by
  \<^verbatim>\<open>DIDUrl.parse(did).did\<close> when \<^verbatim>\<open>DIDUrl.is_valid(did)\<close>, and keeps it otherwise; an
  exception of \<^verbatim>\<open>parse\<close> leaves the function before the resolver is called.
\<close>

definition load_did_document ::
  "pydid \<Rightarrow> ('p, 'w) DocumentLoader \<Rightarrow> string \<Rightarrow> pyval \<Rightarrow> 'w \<Rightarrow> (pyval, 'w) outcome" where
  "load_did_document P L did0 options w =
     (case (if DIDUrl_is_valid P did0
            then (case DIDUrl_parse P did0 of Inl e \<Rightarrow> Inl e | Inr u \<Rightarrow> Inr (did u))
            else Inr did0) of
        Inl e \<Rightarrow> \<lparr>result = Inl e, calls = [], world = w\<rparr>
      | Inr did1 \<Rightarrow>
          (case resolver L (profile L) did1 w of
             (Inl e, w') \<Rightarrow> \<lparr>result = Inl e, calls = [ResolverResolve did1], world = w'\<rparr>
           | (Inr did_document, w') \<Rightarrow>
               \<lparr>result = Inr (PyDict
                   [(''contentType'', PyStr ''application/ld+json''),
                    (''contextUrl'', PyNone),
                    (''documentUrl'', PyStr did1),
                    (''document'', did_document)]),
                calls = [ResolverResolve did1], world = w'\<rparr>))"

text \<open>\<^verbatim>\<open>_load_http_document\<close>, lines 53 to 56.\<close>

definition load_http_document ::
  "('p, 'w) DocumentLoader \<Rightarrow> string \<Rightarrow> pyval \<Rightarrow> 'w \<Rightarrow> (pyval, 'w) outcome" where
  "load_http_document L url options w =
     (case requests_loader L url options w of
        (r, w') \<Rightarrow> \<lparr>result = r, calls = [RequestsLoader url options], world = w'\<rparr>)"

text \<open>The message of the exception of lines 76 to 79; \<open>CHR 0x27\<close> is the single quote.\<close>

definition quoted :: "string \<Rightarrow> string" where
  "quoted s = CHR 0x27 # s @ [CHR 0x27]"

definition unrecognized_message :: string where
  "unrecognized_message =
     ''Unrecognized url format. Must start with '' @ quoted ''did:'' @ '', ''
       @ quoted ''http://'' @ '' or '' @ quoted ''https://''"

text \<open>Line 62 of \<^verbatim>\<open>_load_async\<close>: the f-string that makes the cache key.\<close>

definition cache_key :: "string \<Rightarrow> string" where
  "cache_key url = ''json_ld_document_resolver::'' @ url"

text \<open>
  Lines 70 to 79 of \<^verbatim>\<open>_load_async\<close>, the \<^verbatim>\<open>if\<close>/\<^verbatim>\<open>elif\<close>/\<^verbatim>\<open>else\<close> on the prefix of the
  URL, in the order of the source. It has a name of its own so that theorems can speak of
  what the loader does between the lookup and the store.
\<close>

definition resolve_by_scheme ::
  "pydid \<Rightarrow> ('p, 'w) DocumentLoader \<Rightarrow> string \<Rightarrow> pyval \<Rightarrow> 'w \<Rightarrow> (pyval, 'w) outcome" where
  "resolve_by_scheme P L url options w =
     (if startswith url ''did:''
      then load_did_document P L url options w
      else if startswith url ''http://'' \<or> startswith url ''https://''
      then load_http_document L url options w
      else \<lparr>result = Inl (LinkedDataProofException unrecognized_message),
            calls = [], world = w\<rparr>)"

text \<open>
  \<^verbatim>\<open>_load_async\<close>, lines 59 to 85, in the order of the source: the cache key; the lookup,
  when there is a cache, which returns at once on a truthy value; the choice by prefix; the
  store, when there is a cache; the return. An exception of any call ends the function.
  \<open>looked\<close> is the outcome of lines 65 to 68: \<open>Some document\<close> when they return.
\<close>

definition load_async ::
  "pydid \<Rightarrow> ('p, 'w) DocumentLoader \<Rightarrow> string \<Rightarrow> pyval \<Rightarrow> 'w \<Rightarrow> (pyval, 'w) outcome" where
  "load_async P L url options w =
     (let looked =
            (case cache L of
               None \<Rightarrow> \<lparr>result = Inr None, calls = [], world = w\<rparr>
             | Some c \<Rightarrow>
                 (case cache_get c (cache_key url) w of
                    (Inl e, w1) \<Rightarrow>
                      \<lparr>result = Inl e, calls = [CacheGet (cache_key url)], world = w1\<rparr>
                  | (Inr document, w1) \<Rightarrow>
                      \<lparr>result = Inr (if truthy document then Some document else None),
                       calls = [CacheGet (cache_key url)], world = w1\<rparr>))
      in case result looked of
           Inl e \<Rightarrow> \<lparr>result = Inl e, calls = calls looked, world = world looked\<rparr>
         | Inr (Some document) \<Rightarrow>
             \<lparr>result = Inr document, calls = calls looked, world = world looked\<rparr>
         | Inr None \<Rightarrow>
             (let resolved = resolve_by_scheme P L url options (world looked)
              in case result resolved of
                   Inl e \<Rightarrow>
                     \<lparr>result = Inl e, calls = calls looked @ calls resolved,
                      world = world resolved\<rparr>
                 | Inr document \<Rightarrow>
                     (case cache L of
                        None \<Rightarrow>
                          \<lparr>result = Inr document, calls = calls looked @ calls resolved,
                           world = world resolved\<rparr>
                      | Some c \<Rightarrow>
                          (case cache_set c (cache_key url) document (cache_ttl L)
                                  (world resolved) of
                             (Inl e, w3) \<Rightarrow>
                               \<lparr>result = Inl e,
                                calls = calls looked @ calls resolved
                                  @ [CacheSet (cache_key url) document (cache_ttl L)],
                                world = w3\<rparr>
                           | (Inr u, w3) \<Rightarrow>
                               \<lparr>result = Inr document,
                                calls = calls looked @ calls resolved
                                  @ [CacheSet (cache_key url) document (cache_ttl L)],
                                world = w3\<rparr>))))"

text \<open>
  \<^verbatim>\<open>_load_sync\<close> runs \<^verbatim>\<open>_load_async\<close> to completion in a new event loop, \<^verbatim>\<open>load_document\<close>
  submits \<^verbatim>\<open>_load_sync\<close> to the executor and waits for \<^verbatim>\<open>future.result()\<close>, which returns
  what the call returned or raises what it raised, and \<^verbatim>\<open>__call__\<close> is \<^verbatim>\<open>load_document\<close>.
  For one call, seen from the caller, each is the function below it; threads and event
  loops are not modelled.
\<close>

definition load_sync ::
  "pydid \<Rightarrow> ('p, 'w) DocumentLoader \<Rightarrow> string \<Rightarrow> pyval \<Rightarrow> 'w \<Rightarrow> (pyval, 'w) outcome" where
  "load_sync P L url options w = load_async P L url options w"

definition load_document ::
  "pydid \<Rightarrow> ('p, 'w) DocumentLoader \<Rightarrow> string \<Rightarrow> pyval \<Rightarrow> 'w \<Rightarrow> (pyval, 'w) outcome" where
  "load_document P L url options w = load_sync P L url options w"

subsection \<open>Vocabulary of the properties\<close>

text \<open>
  The calls to the two resolver collaborators, the Identifier Resolver
  (\<^verbatim>\<open>self.resolver.resolve\<close>) and the Network Fetcher (\<^verbatim>\<open>self.requests_loader\<close>).
\<close>

fun resolver_call :: "event \<Rightarrow> bool" where
  "resolver_call (ResolverResolve d) = True"
| "resolver_call (RequestsLoader u opts) = True"
| "resolver_call (CacheGet k) = False"
| "resolver_call (CacheSet k v t) = False"

text \<open>The key of a call to the cache.\<close>

fun event_key :: "event \<Rightarrow> string option" where
  "event_key (CacheGet k) = Some k"
| "event_key (CacheSet k v t) = Some k"
| "event_key (ResolverResolve d) = None"
| "event_key (RequestsLoader u opts) = None"

text \<open>
  The lookup of lines 65 to 68 does not return from \<^verbatim>\<open>_load_async\<close>, and leaves the world
  \<open>w1\<close>: there is no cache, or \<^verbatim>\<open>get\<close> returns a value that is not truthy.
\<close>

definition lookup_misses :: "('p, 'w) DocumentLoader \<Rightarrow> string \<Rightarrow> 'w \<Rightarrow> 'w \<Rightarrow> bool" where
  "lookup_misses L url w w1 =
     (case cache L of
        None \<Rightarrow> w1 = w
      | Some c \<Rightarrow>
          (case cache_get c (cache_key url) w of
             (Inl e, w') \<Rightarrow> False
           | (Inr v, w') \<Rightarrow> \<not> truthy v \<and> w1 = w'))"

subsection \<open>A concrete configuration\<close>

text \<open>
  Collaborators on which the model can be run. The world is the content of the cache, newest
  entry first. The cache returns what was stored under a key and \<^verbatim>\<open>None\<close> for any other
  key, and never raises; a second cache on the same world reports every key absent, and a
  third keeps an entry only when its TTL is positive. The
  resolver knows one identifier and raises for every other; the fetcher returns a document
  record for every URL. The DID URL parser accepts the one DID URL of the examples and, like
  the \<^verbatim>\<open>DIDUrl\<close> the comment of \<^verbatim>\<open>_load_did_document\<close> describes, rejects a DID with no path,
  query or fragment.
\<close>

definition example_cache :: "(string \<times> pyval) list BaseCache" where
  "example_cache =
     \<lparr>cache_get = (\<lambda>k w. (Inr (case map_of w k of None \<Rightarrow> PyNone | Some v \<Rightarrow> v), w)),
      cache_set = (\<lambda>k v t w. (Inr (), (k, v) # w))\<rparr>"

definition example_absent_cache :: "(string \<times> pyval) list BaseCache" where
  "example_absent_cache = example_cache\<lparr>cache_get := (\<lambda>k w. (Inr PyNone, w))\<rparr>"


definition example_pydid :: pydid where
  "example_pydid =
     \<lparr>DIDUrl_is_valid = (\<lambda>s. s = ''did:example:123/path?query''),
      DIDUrl_parse = (\<lambda>s. if s = ''did:example:123/path?query''
         then Inr (DIDUrl ''did:example:123'' (Some ''/path'') (Some ''query'') None)
         else Inl (Raised ''InvalidDIDUrlError'' s))\<rparr>"

definition example_document :: "string \<Rightarrow> pyval" where
  "example_document url =
     PyDict [(''contentType'', PyStr ''application/ld+json''),
             (''contextUrl'', PyNone),
             (''documentUrl'', PyStr url),
             (''document'', PyDict [(''@context'', PyDict [])])]"

definition example_loader ::
  "(string \<times> pyval) list BaseCache option \<Rightarrow> (unit, (string \<times> pyval) list) DocumentLoader" where
  "example_loader c =
     \<lparr>profile = (),
      resolver = (\<lambda>p d w. (if d = ''did:example:123'' then Inr (PyDict [(''id'', PyStr d)])
                            else Inl (Raised ''DIDNotFound'' d), w)),
      cache = c,
      requests_loader = (\<lambda>url opts w. (Inr (example_document url), w)),
      cache_ttl = 300\<rparr>"

section \<open>Properties\<close>

subsection \<open>The three phases of a load\<close>

lemma not_did_if_http:
  "startswith url ''http://'' \<or> startswith url ''https://'' \<Longrightarrow> \<not> startswith url ''did:''"
  by (cases url) (auto simp: startswith_def)

lemma load_hit:
  assumes "cache L = Some c" "cache_get c (cache_key url) w = (Inr v, w1)" "truthy v"
  shows "load_document P L url options w = \<lparr>result = Inr v, calls = [CacheGet (cache_key url)], world = w1\<rparr>"
  using assms by (simp add: load_document_def load_sync_def load_async_def Let_def)

lemma load_uncached:
  assumes "cache L = None"
  shows "load_document P L url options w = resolve_by_scheme P L url options w"
  using assms by (simp add: load_document_def load_sync_def load_async_def Let_def split: sum.splits)

lemma load_miss_cached:
  assumes "cache L = Some c" "cache_get c (cache_key url) w = (Inr v, w1)" "\<not> truthy v"
  shows "load_document P L url options w =
     (case result (resolve_by_scheme P L url options w1) of
        Inl e \<Rightarrow> \<lparr>result = Inl e,
                  calls = CacheGet (cache_key url) # calls (resolve_by_scheme P L url options w1),
                  world = world (resolve_by_scheme P L url options w1)\<rparr>
      | Inr d \<Rightarrow>
          (case cache_set c (cache_key url) d (cache_ttl L) (world (resolve_by_scheme P L url options w1)) of
             (s, w3) \<Rightarrow>
               \<lparr>result = (case s of Inl e \<Rightarrow> Inl e | Inr x \<Rightarrow> Inr d),
                calls = CacheGet (cache_key url) # calls (resolve_by_scheme P L url options w1) @ [CacheSet (cache_key url) d (cache_ttl L)],
                world = w3\<rparr>))"
  using assms
  by (simp add: load_document_def load_sync_def load_async_def Let_def split: sum.splits prod.splits)

lemma resolve_calls:
  "calls (resolve_by_scheme P L url options w) = [] \<or> (\<exists>e. calls (resolve_by_scheme P L url options w) = [e] \<and> resolver_call e)"
  by (simp add: resolve_by_scheme_def load_did_document_def load_http_document_def split: sum.splits prod.splits)


lemma resolve_filter:
  "filter resolver_call (calls (resolve_by_scheme P L url options w)) = calls (resolve_by_scheme P L url options w)"
  using resolve_calls [of P L url options w] by auto

lemma load_miss_calls:
  assumes "lookup_misses L url w w1"
  shows "filter resolver_call (calls (load_document P L url options w))
           = calls (resolve_by_scheme P L url options w1)"
proof (cases "cache L")
  case None
  with assms show ?thesis by (simp add: load_uncached lookup_misses_def resolve_filter)
next
  case (Some c)
  with assms obtain v where g: "cache_get c (cache_key url) w = (Inr v, w1)" and f: "\<not> truthy v"
    by (auto simp: lookup_misses_def split: prod.splits sum.splits)
  show ?thesis
    by (simp add: load_miss_cached [OF Some g f] resolve_filter split: sum.splits prod.splits)
qed

lemma load_miss_result:
  assumes "lookup_misses L url w w1"
  shows "case result (resolve_by_scheme P L url options w1) of
           Inl e \<Rightarrow> result (load_document P L url options w) = Inl e
         | Inr d \<Rightarrow>
             (case result (load_document P L url options w) of
                Inr d' \<Rightarrow> d' = d
              | Inl e \<Rightarrow> \<exists>c. cache L = Some c
                   \<and> fst (cache_set c (cache_key url) d (cache_ttl L)
                            (world (resolve_by_scheme P L url options w1))) = Inl e)"
proof (cases "cache L")
  case None
  with assms show ?thesis by (simp add: load_uncached lookup_misses_def split: sum.splits)
next
  case (Some c)
  with assms obtain v where g: "cache_get c (cache_key url) w = (Inr v, w1)" and f: "\<not> truthy v"
    by (auto simp: lookup_misses_def split: prod.splits sum.splits)
  show ?thesis
    by (simp add: load_miss_cached [OF Some g f] Some split: sum.splits prod.splits)
qed

lemma resolve_did:
  assumes "startswith url ''did:''"
    and "if DIDUrl_is_valid P url then DIDUrl_parse P url = Inr u \<and> did u = d else d = url"
  shows "calls (resolve_by_scheme P L url options w) = [ResolverResolve d]"
    and "world (resolve_by_scheme P L url options w) = snd (resolver L (profile L) d w)"
    and "result (resolve_by_scheme P L url options w) =
          (case fst (resolver L (profile L) d w) of
             Inl e \<Rightarrow> Inl e
           | Inr did_document \<Rightarrow> Inr (PyDict
               [(''contentType'', PyStr ''application/ld+json''),
                (''contextUrl'', PyNone),
                (''documentUrl'', PyStr d),
                (''document'', did_document)]))"
  using assms
  by (auto simp: resolve_by_scheme_def load_did_document_def split: sum.splits prod.splits if_splits)

lemma resolve_http:
  assumes "startswith url ''http://'' \<or> startswith url ''https://''"
  shows "resolve_by_scheme P L url options w =
           \<lparr>result = fst (requests_loader L url options w),
            calls = [RequestsLoader url options],
            world = snd (requests_loader L url options w)\<rparr>"
  using assms not_did_if_http [OF assms]
  by (auto simp: resolve_by_scheme_def load_http_document_def split: prod.splits)

lemma resolve_unrecognized:
  assumes "\<not> startswith url ''did:''" "\<not> startswith url ''http://''" "\<not> startswith url ''https://''"
  shows "resolve_by_scheme P L url options w =
           \<lparr>result = Inl (LinkedDataProofException unrecognized_message), calls = [], world = w\<rparr>"
  using assms by (simp add: resolve_by_scheme_def)

lemma did_function:
  assumes "if DIDUrl_is_valid P url then DIDUrl_parse P url = Inr u \<and> did u = d else d = url"
  shows "load_did_document P L url options w =
           \<lparr>result = (case fst (resolver L (profile L) d w) of
                        Inl e \<Rightarrow> Inl e
                      | Inr did_document \<Rightarrow> Inr (PyDict
                          [(''contentType'', PyStr ''application/ld+json''),
                           (''contextUrl'', PyNone),
                           (''documentUrl'', PyStr d),
                           (''document'', did_document)])),
            calls = [ResolverResolve d],
            world = snd (resolver L (profile L) d w)\<rparr>"
  using assms
  by (auto simp: load_did_document_def split: sum.splits prod.splits if_splits)

lemma http_function:
  "load_http_document L url options w =
     \<lparr>result = fst (requests_loader L url options w),
      calls = [RequestsLoader url options],
      world = snd (requests_loader L url options w)\<rparr>"
  by (simp add: load_http_document_def split: prod.splits)

lemma did_general:
  assumes "startswith url ''did:''"
    and "if DIDUrl_is_valid P url then DIDUrl_parse P url = Inr u \<and> did u = d else d = url"
    and "lookup_misses L url w w1"
  shows "load_did_document P L url options w1 =
           \<lparr>result = (case fst (resolver L (profile L) d w1) of
                        Inl e \<Rightarrow> Inl e
                      | Inr did_document \<Rightarrow> Inr (PyDict
                          [(''contentType'', PyStr ''application/ld+json''),
                           (''contextUrl'', PyNone),
                           (''documentUrl'', PyStr d),
                           (''document'', did_document)])),
            calls = [ResolverResolve d],
            world = snd (resolver L (profile L) d w1)\<rparr>
     \<and> filter resolver_call (calls (load_document P L url options w)) = [ResolverResolve d]
     \<and> (case resolver L (profile L) d w1 of
          (Inl e, w2) \<Rightarrow> result (load_document P L url options w) = Inl e
        | (Inr did_document, w2) \<Rightarrow>
            (case result (load_document P L url options w) of
               Inr document \<Rightarrow> document = PyDict
                 [(''contentType'', PyStr ''application/ld+json''),
                  (''contextUrl'', PyNone),
                  (''documentUrl'', PyStr d),
                  (''document'', did_document)]
             | Inl e \<Rightarrow> \<exists>c. cache L = Some c
                  \<and> fst (cache_set c (cache_key url) (PyDict
                     [(''contentType'', PyStr ''application/ld+json''),
                      (''contextUrl'', PyNone),
                      (''documentUrl'', PyStr d),
                      (''document'', did_document)]) (cache_ttl L) w2) = Inl e))"
  using load_miss_calls [OF assms(3), of P options] load_miss_result [OF assms(3), of P options]
    resolve_did [OF assms(1,2), of L options w1] did_function [OF assms(2), of L options w1]
  by (auto split: sum.splits prod.splits)

lemma resolve_ignores_cache:
  "resolve_by_scheme P (L\<lparr>cache := x\<rparr>) url options w = resolve_by_scheme P L url options w"
  by (simp add: resolve_by_scheme_def load_did_document_def load_http_document_def
      split: sum.splits prod.splits)



subsection \<open>The concrete configuration, evaluated\<close>

lemma example_simps:
  "cache (example_loader c) = c"
  "cache_ttl (example_loader c) = 300"
  "profile (example_loader c) = ()"
  "cache_get example_cache k w = (Inr (case map_of w k of None \<Rightarrow> PyNone | Some v \<Rightarrow> v), w)"
  "cache_set example_cache k v t w = (Inr (), (k, v) # w)"
  by (simp_all add: example_loader_def example_cache_def)

lemma example_calls:
  "resolver (example_loader c) p d w
     = (if d = ''did:example:123'' then Inr (PyDict [(''id'', PyStr d)])
        else Inl (Raised ''DIDNotFound'' d), w)"
  "requests_loader (example_loader c) url opts w = (Inr (example_document url), w)"
  "DIDUrl_is_valid example_pydid s = (s = ''did:example:123/path?query'')"
  "DIDUrl_parse example_pydid ''did:example:123/path?query''
     = Inr (DIDUrl ''did:example:123'' (Some ''/path'') (Some ''query'') None)"
  "example_loader c\<lparr>cache := c'\<rparr> = example_loader c'"
  "cache_get example_absent_cache k w = (Inr PyNone, w)"
  "cache_set example_absent_cache = cache_set example_cache"
  by (simp_all add: example_loader_def example_pydid_def example_document_def example_absent_cache_def)


lemma example_cache_store:
  "\<forall>k v t w w'. cache_set example_cache k v t w = (Inr (), w')
      \<longrightarrow> fst (cache_get example_cache k w') = Inr v"
  by (auto simp: example_simps)

lemma example_cache_reread:
  "\<forall>k v w w'. cache_get example_cache k w = (Inr v, w')
      \<longrightarrow> fst (cache_get example_cache k w') = Inr v"
  by (auto simp: example_simps)

section \<open>The claims\<close>

subsection \<open>References of no recognized scheme\<close>

text \<open>
  C1, amended. For every reference that starts with none of \<^verbatim>\<open>did:\<close>, \<^verbatim>\<open>http://\<close> and
  \<^verbatim>\<open>https://\<close>, whatever the cache answers: a load calls neither the Identifier Resolver,
  nor the Network Fetcher, nor the cache's \<^verbatim>\<open>set\<close>. With no cache configured it makes no
  call at all and fails with the \<^verbatim>\<open>LinkedDataProofException\<close> of the unrecognized format. With
  a cache configured its one call is the cache's \<^verbatim>\<open>get\<close>, with the cache key, before the
  prefix is looked at: when \<^verbatim>\<open>get\<close> returns a value that is not truthy the load fails with
  that same exception, when \<^verbatim>\<open>get\<close> returns a truthy value the load returns it, and when
  \<^verbatim>\<open>get\<close> raises the load raises what it raised.
\<close>

theorem unrecognized_fails_after_lookup:
  assumes "\<not> startswith url ''did:''" and "\<not> startswith url ''http://''"
    and "\<not> startswith url ''https://''"
  shows "load_document P L url options w =
           (case cache L of
              None \<Rightarrow>
                \<lparr>result = Inl (LinkedDataProofException unrecognized_message),
                 calls = [], world = w\<rparr>
            | Some c \<Rightarrow>
                \<lparr>result =
                   (case fst (cache_get c (cache_key url) w) of
                      Inl e \<Rightarrow> Inl e
                    | Inr v \<Rightarrow>
                        if truthy v then Inr v
                        else Inl (LinkedDataProofException unrecognized_message)),
                 calls = [CacheGet (cache_key url)],
                 world = snd (cache_get c (cache_key url) w)\<rparr>)"
proof (cases "cache L")
  case None
  then show ?thesis
    by (simp add: load_uncached resolve_unrecognized [OF assms])
next
  case (Some c)
  obtain g w1 where g: "cache_get c (cache_key url) w = (g, w1)"
    by (cases "cache_get c (cache_key url) w")
  show ?thesis
  proof (cases g)
    case (Inl e)
    with Some g show ?thesis
      by (simp add: load_document_def load_sync_def load_async_def Let_def)
  next
    case (Inr v)
    note gv = g [unfolded Inr]
    show ?thesis
    proof (cases "truthy v")
      case True
      show ?thesis by (simp add: load_hit [OF Some gv True] Some gv True)
    next
      case False
      show ?thesis
        by (simp add: load_miss_cached [OF Some gv False] resolve_unrecognized [OF assms]
            Some gv False)
    qed
  qed
qed

text \<open>
  The theorem at the reference \<^verbatim>\<open>ftp://example.com/x\<close>: with no cache, with an empty cache,
  and with a cache that holds a document under the key of that reference.
\<close>

theorem unrecognized_fails_after_lookup_witness:
  "\<not> startswith ''ftp://example.com/x'' ''did:''
   \<and> \<not> startswith ''ftp://example.com/x'' ''http://''
   \<and> \<not> startswith ''ftp://example.com/x'' ''https://''
   \<and> load_document example_pydid (example_loader None) ''ftp://example.com/x'' (PyDict []) []
       = \<lparr>result = Inl (LinkedDataProofException unrecognized_message), calls = [], world = []\<rparr>
   \<and> load_document example_pydid (example_loader (Some example_cache)) ''ftp://example.com/x''
         (PyDict []) []
       = \<lparr>result = Inl (LinkedDataProofException unrecognized_message),
          calls = [CacheGet ''json_ld_document_resolver::ftp://example.com/x''], world = []\<rparr>
   \<and> load_document example_pydid (example_loader (Some example_cache)) ''ftp://example.com/x''
         (PyDict [])
         [(''json_ld_document_resolver::ftp://example.com/x'', example_document ''ftp://example.com/x'')]
       = \<lparr>result = Inr (example_document ''ftp://example.com/x''),
          calls = [CacheGet ''json_ld_document_resolver::ftp://example.com/x''],
          world = [(''json_ld_document_resolver::ftp://example.com/x'',
                    example_document ''ftp://example.com/x'')]\<rparr>"
proof -
  have h1: "\<not> startswith ''ftp://example.com/x'' ''did:''" by (simp add: startswith_def)
  have h2: "\<not> startswith ''ftp://example.com/x'' ''http://''" by (simp add: startswith_def)
  have h3: "\<not> startswith ''ftp://example.com/x'' ''https://''" by (simp add: startswith_def)
  have t: "truthy (example_document ''ftp://example.com/x'')" by (simp add: example_document_def)
  show ?thesis
    using unrecognized_fails_after_lookup [OF h1 h2 h3, of example_pydid "example_loader None"
        "PyDict []" "[]"]
      unrecognized_fails_after_lookup [OF h1 h2 h3, of example_pydid
        "example_loader (Some example_cache)" "PyDict []" "[]"]
      unrecognized_fails_after_lookup [OF h1 h2 h3, of example_pydid
        "example_loader (Some example_cache)" "PyDict []"
        "[(''json_ld_document_resolver::ftp://example.com/x'', example_document ''ftp://example.com/x'')]"]
      h1 h2 h3 t
    by (simp add: example_simps cache_key_def)
qed

text \<open>
  With a cache configured, the same load calls the cache's \<^verbatim>\<open>get\<close>: the lookup of lines 65
  to 68 comes before the test of the prefix.
\<close>

theorem unrecognized_reference_reaches_cache:
  "calls (load_document example_pydid (example_loader (Some example_cache))
            ''ftp://example.com/x'' (PyDict []) [])
     = [CacheGet ''json_ld_document_resolver::ftp://example.com/x'']"
  by (simp add: load_document_def load_sync_def load_async_def Let_def resolve_by_scheme_def
      startswith_def cache_key_def example_simps)

subsection \<open>Cache-aside\<close>

text \<open>
  C2. With a cache configured, the load first calls \<^verbatim>\<open>get\<close> with the cache key. When it
  returns a truthy value (a hit), that value is the result, unchanged, and \<^verbatim>\<open>get\<close> is the only
  call made. Otherwise (a miss) the reference is resolved; when the resolution raises, the
  exception is the result and the calls are \<^verbatim>\<open>get\<close> and those of the resolution: nothing is
  stored; when it returns a document, \<^verbatim>\<open>set\<close> is called last, with the cache key, that
  document and the TTL of the loader, and the document is the result once \<^verbatim>\<open>set\<close> has
  returned. The resolution itself calls the resolver collaborators only.
\<close>

theorem cache_aside:
  assumes "cache L = Some c" and "cache_get c (cache_key url) w = (Inr v, w1)"
  shows "(truthy v \<longrightarrow>
            load_document P L url options w
              = \<lparr>result = Inr v, calls = [CacheGet (cache_key url)], world = w1\<rparr>)
       \<and> (\<not> truthy v \<longrightarrow>
            (case result (resolve_by_scheme P L url options w1) of
               Inl e \<Rightarrow>
                 load_document P L url options w
                   = \<lparr>result = Inl e,
                      calls = CacheGet (cache_key url) # calls (resolve_by_scheme P L url options w1),
                      world = world (resolve_by_scheme P L url options w1)\<rparr>
             | Inr d \<Rightarrow>
                 (case cache_set c (cache_key url) d (cache_ttl L)
                         (world (resolve_by_scheme P L url options w1)) of
                    (s, w3) \<Rightarrow>
                      load_document P L url options w
                        = \<lparr>result = (case s of Inl e \<Rightarrow> Inl e | Inr x \<Rightarrow> Inr d),
                           calls = CacheGet (cache_key url)
                             # calls (resolve_by_scheme P L url options w1)
                             @ [CacheSet (cache_key url) d (cache_ttl L)],
                           world = w3\<rparr>)))
       \<and> (\<forall>e \<in> set (calls (resolve_by_scheme P L url options w1)). resolver_call e)"
proof (intro conjI impI)
  assume "truthy v"
  then show "load_document P L url options w
      = \<lparr>result = Inr v, calls = [CacheGet (cache_key url)], world = w1\<rparr>"
    by (rule load_hit [OF assms])
next
  assume f: "\<not> truthy v"
  show "case result (resolve_by_scheme P L url options w1) of
               Inl e \<Rightarrow>
                 load_document P L url options w
                   = \<lparr>result = Inl e,
                      calls = CacheGet (cache_key url) # calls (resolve_by_scheme P L url options w1),
                      world = world (resolve_by_scheme P L url options w1)\<rparr>
             | Inr d \<Rightarrow>
                 (case cache_set c (cache_key url) d (cache_ttl L)
                         (world (resolve_by_scheme P L url options w1)) of
                    (s, w3) \<Rightarrow>
                      load_document P L url options w
                        = \<lparr>result = (case s of Inl e \<Rightarrow> Inl e | Inr x \<Rightarrow> Inr d),
                           calls = CacheGet (cache_key url)
                             # calls (resolve_by_scheme P L url options w1)
                             @ [CacheSet (cache_key url) d (cache_ttl L)],
                           world = w3\<rparr>)"
    by (simp add: load_miss_cached [OF assms f] split: sum.splits prod.splits)
next
  show "\<forall>e \<in> set (calls (resolve_by_scheme P L url options w1)). resolver_call e"
    using resolve_calls [of P L url options w1] by auto
qed

text \<open>The theorem at an HTTPS reference and an empty cache: a miss, then the store.\<close>

theorem cache_aside_witness:
  "cache (example_loader (Some example_cache)) = Some example_cache
   \<and> cache_get example_cache (cache_key ''https://example.com/ctx.jsonld'') []
        = (Inr PyNone, [])
   \<and> load_document example_pydid (example_loader (Some example_cache))
        ''https://example.com/ctx.jsonld'' (PyDict []) []
      = \<lparr>result = Inr (example_document ''https://example.com/ctx.jsonld''),
         calls = [CacheGet ''json_ld_document_resolver::https://example.com/ctx.jsonld'',
                  RequestsLoader ''https://example.com/ctx.jsonld'' (PyDict []),
                  CacheSet ''json_ld_document_resolver::https://example.com/ctx.jsonld''
                    (example_document ''https://example.com/ctx.jsonld'') 300],
         world = [(''json_ld_document_resolver::https://example.com/ctx.jsonld'',
                   example_document ''https://example.com/ctx.jsonld'')]\<rparr>"
proof -
  have h1: "cache (example_loader (Some example_cache)) = Some example_cache"
    by (simp add: example_simps)
  have h2: "cache_get example_cache (cache_key ''https://example.com/ctx.jsonld'') []
        = (Inr PyNone, [])"
    by (simp add: example_simps)
  have r: "resolve_by_scheme example_pydid (example_loader (Some example_cache))
             ''https://example.com/ctx.jsonld'' (PyDict []) []
           = \<lparr>result = Inr (example_document ''https://example.com/ctx.jsonld''),
              calls = [RequestsLoader ''https://example.com/ctx.jsonld'' (PyDict [])],
              world = []\<rparr>"
    by (simp add: resolve_by_scheme_def load_http_document_def startswith_def example_calls)
  show ?thesis
    using cache_aside [OF h1 h2, of example_pydid "PyDict []"] h1 h2
    by (simp add: r example_simps cache_key_def)
qed

subsection \<open>DID URLs\<close>

text \<open>
  C3. For every reference that starts with \<^verbatim>\<open>did:\<close> and that \<^verbatim>\<open>DIDUrl\<close> accepts and parses to
  \<open>u\<close>: \<open>load_did_document\<close> calls the Identifier Resolver, once, with \<open>did u\<close>, the
  identifier without path, query or fragment, and when the resolver returns a DID document
  it returns the record of the four fields \<^verbatim>\<open>contentType\<close> (\<^verbatim>\<open>application/ld+json\<close>),
  \<^verbatim>\<open>contextUrl\<close> (\<^verbatim>\<open>None\<close>), \<^verbatim>\<open>documentUrl\<close> (\<open>did u\<close>) and \<^verbatim>\<open>document\<close> (what the resolver
  returned). So does a load whose lookup does not return from the cache (no cache, or a
  miss): that call is its one call to a resolver collaborator; when the resolver raises, so
  does the load; when the resolver returns, the load returns that record, and raises only
  what the cache's \<^verbatim>\<open>set\<close> raises for it.
\<close>

theorem did_url_resolved_by_plain_did:
  assumes "startswith url ''did:''"
    and "DIDUrl_is_valid P url" and "DIDUrl_parse P url = Inr u"
    and "lookup_misses L url w w1"
  shows "load_did_document P L url options w1 =
           \<lparr>result = (case fst (resolver L (profile L) (did u) w1) of
                        Inl e \<Rightarrow> Inl e
                      | Inr did_document \<Rightarrow> Inr (PyDict
                          [(''contentType'', PyStr ''application/ld+json''),
                           (''contextUrl'', PyNone),
                           (''documentUrl'', PyStr (did u)),
                           (''document'', did_document)])),
            calls = [ResolverResolve (did u)],
            world = snd (resolver L (profile L) (did u) w1)\<rparr>
     \<and> filter resolver_call (calls (load_document P L url options w)) = [ResolverResolve (did u)]
     \<and> (case resolver L (profile L) (did u) w1 of
          (Inl e, w2) \<Rightarrow> result (load_document P L url options w) = Inl e
        | (Inr did_document, w2) \<Rightarrow>
            (case result (load_document P L url options w) of
               Inr document \<Rightarrow> document = PyDict
                 [(''contentType'', PyStr ''application/ld+json''),
                  (''contextUrl'', PyNone),
                  (''documentUrl'', PyStr (did u)),
                  (''document'', did_document)]
             | Inl e \<Rightarrow> \<exists>c. cache L = Some c
                  \<and> fst (cache_set c (cache_key url) (PyDict
                     [(''contentType'', PyStr ''application/ld+json''),
                      (''contextUrl'', PyNone),
                      (''documentUrl'', PyStr (did u)),
                      (''document'', did_document)]) (cache_ttl L) w2) = Inl e))"
proof -
  have n: "if DIDUrl_is_valid P url then DIDUrl_parse P url = Inr u \<and> did u = did u
           else did u = url"
    using assms(2,3) by simp
  show ?thesis by (rule did_general [OF assms(1) n assms(4)])
qed

text \<open>The theorem at \<^verbatim>\<open>did:example:123/path?query\<close>, with no cache.\<close>

theorem did_url_resolved_by_plain_did_witness:
  "startswith ''did:example:123/path?query'' ''did:''
   \<and> DIDUrl_is_valid example_pydid ''did:example:123/path?query''
   \<and> DIDUrl_parse example_pydid ''did:example:123/path?query''
        = Inr (DIDUrl ''did:example:123'' (Some ''/path'') (Some ''query'') None)
   \<and> lookup_misses (example_loader None) ''did:example:123/path?query'' [] []
   \<and> filter resolver_call (calls (load_document example_pydid (example_loader None)
         ''did:example:123/path?query'' (PyDict []) []))
        = [ResolverResolve ''did:example:123'']
   \<and> result (load_document example_pydid (example_loader None)
         ''did:example:123/path?query'' (PyDict []) [])
        = Inr (PyDict [(''contentType'', PyStr ''application/ld+json''),
                       (''contextUrl'', PyNone),
                       (''documentUrl'', PyStr ''did:example:123''),
                       (''document'', PyDict [(''id'', PyStr ''did:example:123'')])])"
proof -
  have h1: "startswith ''did:example:123/path?query'' ''did:''" by (simp add: startswith_def)
  have h2: "DIDUrl_is_valid example_pydid ''did:example:123/path?query''"
    by (simp add: example_calls)
  have h3: "DIDUrl_parse example_pydid ''did:example:123/path?query''
        = Inr (DIDUrl ''did:example:123'' (Some ''/path'') (Some ''query'') None)"
    by (simp add: example_calls)
  have h4: "lookup_misses (example_loader None) ''did:example:123/path?query'' [] []"
    by (simp add: lookup_misses_def example_simps)
  show ?thesis
    using did_url_resolved_by_plain_did [OF h1 h2 h3 h4, where options = "PyDict []"] h1 h2 h3 h4
    by (simp add: example_simps example_calls split: sum.splits)
qed

subsection \<open>HTTP and HTTPS URLs\<close>

text \<open>
  C4. For every reference that starts with \<^verbatim>\<open>http://\<close> or \<^verbatim>\<open>https://\<close>:
  \<open>load_http_document\<close> calls the Network Fetcher, once, with the reference and the options
  as the caller gave them, and its outcome is the fetcher's. So is that of a load whose
  lookup does not return from the cache (no cache, or a miss): that call is its one call to
  a resolver collaborator; when the fetcher raises, so does the load; when it returns a
  record, the load returns that record, unchanged, and raises only what the cache's \<^verbatim>\<open>set\<close>
  raises for it.
\<close>

theorem http_url_passed_to_fetcher:
  assumes "startswith url ''http://'' \<or> startswith url ''https://''"
    and "lookup_misses L url w w1"
  shows "load_http_document L url options w1 =
           \<lparr>result = fst (requests_loader L url options w1),
            calls = [RequestsLoader url options],
            world = snd (requests_loader L url options w1)\<rparr>
     \<and> filter resolver_call (calls (load_document P L url options w)) = [RequestsLoader url options]
     \<and> (case requests_loader L url options w1 of
          (Inl e, w2) \<Rightarrow> result (load_document P L url options w) = Inl e
        | (Inr d, w2) \<Rightarrow>
            (case result (load_document P L url options w) of
               Inr document \<Rightarrow> document = d
             | Inl e \<Rightarrow> \<exists>c. cache L = Some c
                  \<and> fst (cache_set c (cache_key url) d (cache_ttl L) w2) = Inl e))"
  using load_miss_calls [OF assms(2), of P options] load_miss_result [OF assms(2), of P options]
    resolve_http [OF assms(1), of P L options w1] http_function [of L url options w1]
  by (auto split: sum.splits prod.splits)

text \<open>The theorem at an HTTPS reference, with options, on a miss of an empty cache.\<close>

theorem http_url_passed_to_fetcher_witness:
  "startswith ''https://example.com/ctx.jsonld'' ''https://''
   \<and> lookup_misses (example_loader (Some example_cache)) ''https://example.com/ctx.jsonld'' [] []
   \<and> filter resolver_call (calls (load_document example_pydid (example_loader (Some example_cache))
         ''https://example.com/ctx.jsonld'' (PyDict [(''headers'', PyDict [])]) []))
        = [RequestsLoader ''https://example.com/ctx.jsonld'' (PyDict [(''headers'', PyDict [])])]
   \<and> result (load_document example_pydid (example_loader (Some example_cache))
         ''https://example.com/ctx.jsonld'' (PyDict [(''headers'', PyDict [])]) [])
        = Inr (example_document ''https://example.com/ctx.jsonld'')"
proof -
  have h1: "startswith ''https://example.com/ctx.jsonld'' ''https://''"
    by (simp add: startswith_def)
  have h2: "lookup_misses (example_loader (Some example_cache)) ''https://example.com/ctx.jsonld'' [] []"
    by (simp add: lookup_misses_def example_simps)
  show ?thesis
    using http_url_passed_to_fetcher [OF disjI2 [OF h1] h2, where P = example_pydid
        and options = "PyDict [(''headers'', PyDict [])]"] h1 h2
    by (simp add: example_simps example_calls split: sum.splits)
qed

subsection \<open>The cache key\<close>

text \<open>
  C5. For every reference, every options mapping, every loader and every state of the world,
  each call to the cache that a load makes, \<^verbatim>\<open>get\<close> or \<^verbatim>\<open>set\<close>, has the key
  \<^verbatim>\<open>json_ld_document_resolver::\<close> followed by the reference as the caller gave it; and with a
  cache configured the first call of the load is \<^verbatim>\<open>get\<close> with that key. The key depends on
  nothing but the reference: the options do not occur in it.
\<close>

theorem cache_key_is_namespaced_reference:
  "(\<forall>e \<in> set (calls (load_document P L url options w)).
      event_key e = None \<or> event_key e = Some (''json_ld_document_resolver::'' @ url))
   \<and> (\<forall>c. cache L = Some c \<longrightarrow>
        (\<exists>rest. calls (load_document P L url options w)
                   = CacheGet (''json_ld_document_resolver::'' @ url) # rest))"
proof -
  have r: "\<forall>e \<in> set (calls (resolve_by_scheme P L url options w')). event_key e = None" for w'
    using resolve_calls [of P L url options w'] by (auto elim: resolver_call.elims)
  show ?thesis
    using r 
    by (auto simp: load_document_def load_sync_def load_async_def Let_def cache_key_def
        split: option.splits sum.splits prod.splits)
qed

text \<open>
  The theorem at a DID URL with options: the key is made of the reference before its path
  and query are taken off.
\<close>

theorem cache_key_is_namespaced_reference_witness:
  "cache (example_loader (Some example_cache)) = Some example_cache
   \<and> hd (calls (load_document example_pydid (example_loader (Some example_cache))
           ''did:example:123/path?query'' (PyDict [(''headers'', PyDict [])]) []))
       = CacheGet ''json_ld_document_resolver::did:example:123/path?query''"
proof -
  have h: "cache (example_loader (Some example_cache)) = Some example_cache"
    by (simp add: example_simps)
  show ?thesis
    using cache_key_is_namespaced_reference [of example_pydid "example_loader (Some example_cache)"
        "''did:example:123/path?query''" "PyDict [(''headers'', PyDict [])]" "[]"] h
    by auto
qed

subsection \<open>The exception for an unrecognized reference\<close>

text \<open>
  C6, amended. Whenever a load fails because the reference starts with none of \<^verbatim>\<open>did:\<close>,
  \<^verbatim>\<open>http://\<close> and \<^verbatim>\<open>https://\<close> (no cache, or a miss), the exception raised is
  \<^verbatim>\<open>LinkedDataProofException\<close> with one fixed message, the same for every reference, which
  names the three prefixes and not the reference.
\<close>

theorem unrecognized_error_is_fixed:
  assumes "\<not> startswith url ''did:''" and "\<not> startswith url ''http://''"
    and "\<not> startswith url ''https://''"
    and "lookup_misses L url w w1"
  shows "result (load_document P L url options w)
           = Inl (LinkedDataProofException
               (''Unrecognized url format. Must start with '' @ [CHR 0x27] @ ''did:'' @ [CHR 0x27]
                 @ '', '' @ [CHR 0x27] @ ''http://'' @ [CHR 0x27] @ '' or ''
                 @ [CHR 0x27] @ ''https://'' @ [CHR 0x27]))"
proof (cases "cache L")
  case None
  with assms show ?thesis
    by (simp add: load_uncached resolve_unrecognized lookup_misses_def unrecognized_message_def quoted_def)
next
  case (Some c)
  with assms(4) obtain v where g: "cache_get c (cache_key url) w = (Inr v, w1)" and f: "\<not> truthy v"
    by (auto simp: lookup_misses_def split: prod.splits sum.splits)
  show ?thesis
    by (simp add: load_miss_cached [OF Some g f] resolve_unrecognized [OF assms(1,2,3)]
        unrecognized_message_def quoted_def)
qed

text \<open>The theorem at a \<^verbatim>\<open>mailto:\<close> reference, on a miss of an empty cache.\<close>

theorem unrecognized_error_is_fixed_witness:
  "\<not> startswith ''mailto:alice@example.com'' ''did:''
   \<and> \<not> startswith ''mailto:alice@example.com'' ''http://''
   \<and> \<not> startswith ''mailto:alice@example.com'' ''https://''
   \<and> lookup_misses (example_loader (Some example_cache)) ''mailto:alice@example.com'' [] []
   \<and> result (load_document example_pydid (example_loader (Some example_cache))
         ''mailto:alice@example.com'' (PyDict []) [])
       = Inl (LinkedDataProofException unrecognized_message)"
proof -
  have h1: "\<not> startswith ''mailto:alice@example.com'' ''did:''" by (simp add: startswith_def)
  have h2: "\<not> startswith ''mailto:alice@example.com'' ''http://''" by (simp add: startswith_def)
  have h3: "\<not> startswith ''mailto:alice@example.com'' ''https://''" by (simp add: startswith_def)
  have h4: "lookup_misses (example_loader (Some example_cache)) ''mailto:alice@example.com'' [] []"
    by (simp add: lookup_misses_def example_simps)
  show ?thesis
    using unrecognized_error_is_fixed [OF h1 h2 h3 h4, of example_pydid "PyDict []"] h1 h2 h3 h4
    by (simp add: unrecognized_message_def quoted_def)
qed

text \<open>
  The exception of the load of \<^verbatim>\<open>ftp://example.com/x\<close> has the fixed message, and the
  reference is no part of that message.
\<close>

theorem unrecognized_error_omits_reference:
  "result (load_document example_pydid (example_loader None) ''ftp://example.com/x'' (PyDict []) [])
     = Inl (LinkedDataProofException unrecognized_message)
   \<and> \<not> sublist ''ftp://example.com/x'' unrecognized_message"
proof -
  have "\<not> sublist ''ftp://example.com/x'' unrecognized_message"
    unfolding unrecognized_message_def quoted_def by code_simp
  then show ?thesis
    by (simp add: load_document_def load_sync_def load_async_def Let_def resolve_by_scheme_def
      startswith_def example_simps)
qed

subsection \<open>Plain DIDs\<close>

text \<open>
  C7. For every reference that starts with \<^verbatim>\<open>did:\<close> and has no path, query or fragment to
  take off (either \<^verbatim>\<open>DIDUrl\<close> does not accept it, or it parses to a DID URL whose \<^verbatim>\<open>did\<close> is
  the whole reference): \<open>load_did_document\<close> calls the Identifier Resolver, once, with the
  reference unchanged, and the \<^verbatim>\<open>documentUrl\<close> of the record it returns is the reference. So
  does a load whose lookup does not return from the cache (no cache, or a miss).
\<close>

theorem bare_did_passes_unchanged:
  assumes "startswith url ''did:''"
    and "DIDUrl_is_valid P url \<longrightarrow> (\<exists>u. DIDUrl_parse P url = Inr u \<and> did u = url)"
    and "lookup_misses L url w w1"
  shows "load_did_document P L url options w1 =
           \<lparr>result = (case fst (resolver L (profile L) url w1) of
                        Inl e \<Rightarrow> Inl e
                      | Inr did_document \<Rightarrow> Inr (PyDict
                          [(''contentType'', PyStr ''application/ld+json''),
                           (''contextUrl'', PyNone),
                           (''documentUrl'', PyStr url),
                           (''document'', did_document)])),
            calls = [ResolverResolve url],
            world = snd (resolver L (profile L) url w1)\<rparr>
     \<and> filter resolver_call (calls (load_document P L url options w)) = [ResolverResolve url]
     \<and> (case resolver L (profile L) url w1 of
          (Inl e, w2) \<Rightarrow> result (load_document P L url options w) = Inl e
        | (Inr did_document, w2) \<Rightarrow>
            (case result (load_document P L url options w) of
               Inr document \<Rightarrow> document = PyDict
                 [(''contentType'', PyStr ''application/ld+json''),
                  (''contextUrl'', PyNone),
                  (''documentUrl'', PyStr url),
                  (''document'', did_document)]
             | Inl e \<Rightarrow> \<exists>c. cache L = Some c
                  \<and> fst (cache_set c (cache_key url) (PyDict
                     [(''contentType'', PyStr ''application/ld+json''),
                      (''contextUrl'', PyNone),
                      (''documentUrl'', PyStr url),
                      (''document'', did_document)]) (cache_ttl L) w2) = Inl e))"
proof (cases "DIDUrl_is_valid P url")
  case True
  with assms(2) obtain u where u: "DIDUrl_parse P url = Inr u" "did u = url" by blast
  have n: "if DIDUrl_is_valid P url then DIDUrl_parse P url = Inr u \<and> did u = url else url = url"
    using True u by simp
  show ?thesis by (rule did_general [OF assms(1) n assms(3)])
next
  case False
  have n: "if DIDUrl_is_valid P url then DIDUrl_parse P url = Inr (DIDUrl url None None None) \<and> did (DIDUrl url None None None) = url
           else url = url"
    using False by simp
  show ?thesis by (rule did_general [OF assms(1) n assms(3)])
qed

text \<open>The theorem at \<^verbatim>\<open>did:example:123\<close>, with no cache.\<close>

theorem bare_did_passes_unchanged_witness:
  "startswith ''did:example:123'' ''did:''
   \<and> \<not> DIDUrl_is_valid example_pydid ''did:example:123''
   \<and> lookup_misses (example_loader None) ''did:example:123'' [] []
   \<and> filter resolver_call (calls (load_document example_pydid (example_loader None)
         ''did:example:123'' (PyDict []) []))
        = [ResolverResolve ''did:example:123'']
   \<and> result (load_document example_pydid (example_loader None) ''did:example:123'' (PyDict []) [])
        = Inr (PyDict [(''contentType'', PyStr ''application/ld+json''),
                       (''contextUrl'', PyNone),
                       (''documentUrl'', PyStr ''did:example:123''),
                       (''document'', PyDict [(''id'', PyStr ''did:example:123'')])])"
proof -
  have h1: "startswith ''did:example:123'' ''did:''" by (simp add: startswith_def)
  have h2: "\<not> DIDUrl_is_valid example_pydid ''did:example:123''" by (simp add: example_calls)
  then have h2': "DIDUrl_is_valid example_pydid ''did:example:123''
      \<longrightarrow> (\<exists>u. DIDUrl_parse example_pydid ''did:example:123'' = Inr u \<and> did u = ''did:example:123'')"
    by simp
  have h3: "lookup_misses (example_loader None) ''did:example:123'' [] []"
    by (simp add: lookup_misses_def example_simps)
  show ?thesis
    using bare_did_passes_unchanged [OF h1 h2' h3, where options = "PyDict []"] h1 h2 h3
    by (simp add: example_simps example_calls split: sum.splits)
qed

subsection \<open>Two successive loads\<close>




subsection \<open>Falsy cached values\<close>

text \<open>
  C10. When the cache's \<^verbatim>\<open>get\<close> returns a value that is not truthy for the cache key, the load
  does what it does when \<^verbatim>\<open>get\<close> returns \<^verbatim>\<open>None\<close>: its result, its calls and the world it
  leaves are those of the same loader with a cache that reports the key absent; after
  \<^verbatim>\<open>get\<close> it goes on with the calls of the resolution. \<^verbatim>\<open>None\<close>, the empty dict and the empty
  string are not truthy.
\<close>

theorem falsy_cached_value_is_miss:
  assumes "cache L = Some c" and "cache_get c (cache_key url) w = (Inr v, w1)" and "\<not> truthy v"
    and "cache_get c' (cache_key url) w = (Inr PyNone, w1)" and "cache_set c' = cache_set c"
  shows "load_document P L url options w = load_document P (L\<lparr>cache := Some c'\<rparr>) url options w
     \<and> (\<exists>rest. calls (load_document P L url options w)
           = CacheGet (cache_key url) # calls (resolve_by_scheme P L url options w1) @ rest)
     \<and> \<not> truthy PyNone \<and> \<not> truthy (PyDict []) \<and> \<not> truthy (PyStr [])"
proof -
  have c': "cache (L\<lparr>cache := Some c'\<rparr>) = Some c'" by simp
  have n: "\<not> truthy PyNone" by simp
  have "load_document P L url options w = load_document P (L\<lparr>cache := Some c'\<rparr>) url options w"
    by (simp add: load_miss_cached [OF assms(1,2,3)] load_miss_cached [OF c' assms(4) n]
        resolve_ignores_cache assms(5) split: sum.splits prod.splits)
  moreover have "\<exists>rest. calls (load_document P L url options w)
           = CacheGet (cache_key url) # calls (resolve_by_scheme P L url options w1) @ rest"
    by (simp add: load_miss_cached [OF assms(1,2,3)] split: sum.splits prod.splits)
  ultimately show ?thesis by simp
qed

text \<open>The theorem at a cache that holds an empty dict under the key of the reference.\<close>

theorem falsy_cached_value_is_miss_witness:
  "cache (example_loader (Some example_cache)) = Some example_cache
   \<and> cache_get example_cache (cache_key ''did:example:123'')
        [(''json_ld_document_resolver::did:example:123'', PyDict [])]
       = (Inr (PyDict []), [(''json_ld_document_resolver::did:example:123'', PyDict [])])
   \<and> \<not> truthy (PyDict [])
   \<and> cache_get example_absent_cache (cache_key ''did:example:123'')
        [(''json_ld_document_resolver::did:example:123'', PyDict [])]
       = (Inr PyNone, [(''json_ld_document_resolver::did:example:123'', PyDict [])])
   \<and> cache_set example_absent_cache = cache_set example_cache
   \<and> load_document example_pydid (example_loader (Some example_cache)) ''did:example:123''
        (PyDict []) [(''json_ld_document_resolver::did:example:123'', PyDict [])]
       = load_document example_pydid (example_loader (Some example_absent_cache)) ''did:example:123''
        (PyDict []) [(''json_ld_document_resolver::did:example:123'', PyDict [])]"
proof -
  have h1: "cache (example_loader (Some example_cache)) = Some example_cache"
    by (simp add: example_simps)
  have h2: "cache_get example_cache (cache_key ''did:example:123'')
        [(''json_ld_document_resolver::did:example:123'', PyDict [])]
       = (Inr (PyDict []), [(''json_ld_document_resolver::did:example:123'', PyDict [])])"
    by (simp add: example_simps cache_key_def)
  have h3: "\<not> truthy (PyDict [])" by simp
  have h4: "cache_get example_absent_cache (cache_key ''did:example:123'')
        [(''json_ld_document_resolver::did:example:123'', PyDict [])]
       = (Inr PyNone, [(''json_ld_document_resolver::did:example:123'', PyDict [])])"
    by (simp add: example_calls)
  have h5: "cache_set example_absent_cache = cache_set example_cache"
    by (simp add: example_calls)
  show ?thesis
    using falsy_cached_value_is_miss [OF h1 h2 h3 h4 h5, of example_pydid "PyDict []"] h1 h2 h4 h5
    by (simp add: example_calls)
qed

end
